theory Spec2Isabelle
  imports Complex_Main
begin

section \<open>Sessions\<close>

text \<open>
  The \<^verbatim>\<open>Session\<close> type of \<^verbatim>\<open>shared/types.js\<close> is read by the components only
  through its \<^verbatim>\<open>id\<close> and \<^verbatim>\<open>status\<close> fields (the display name is only rendered).
  The status is kept as the string the code compares with \<^verbatim>\<open>'running'\<close> and \<^verbatim>\<open>'exited'\<close>.
\<close>

record session =
  id_session :: string
  status :: string

section \<open>The split group card (\<^verbatim>\<open>SplitGroupCard\<close>)\<close>

datatype card_mode = Active | Persisted

text \<open>
  The two session properties are declared non-null, but \<^verbatim>\<open>render\<close> guards against
  their absence, so they are optional here. \<^verbatim>\<open>groupId\<close> defaults to the empty string.
\<close>

record split_group_card =
  leftSession :: "session option"
  rightSession :: "session option"
  mode :: card_mode
  groupId :: string

datatype group_card_event =
    SplitSessionFocus string
  | Unsplit string
  | RestoreSplitGroup string

text \<open>Reading a field of an absent session throws a \<^verbatim>\<open>TypeError\<close>.\<close>

datatype js_error = TypeError

definition handleClickLeft :: "split_group_card \<Rightarrow> js_error + group_card_event list" where
  "handleClickLeft c =
     (case leftSession c of
        None \<Rightarrow> Inl TypeError
      | Some l \<Rightarrow> Inr [SplitSessionFocus (id_session l)])"

definition handleClickRight :: "split_group_card \<Rightarrow> js_error + group_card_event list" where
  "handleClickRight c =
     (case rightSession c of
        None \<Rightarrow> Inl TypeError
      | Some r \<Rightarrow> Inr [SplitSessionFocus (id_session r)])"

definition handleUnsplit :: "split_group_card \<Rightarrow> js_error + group_card_event list" where
  "handleUnsplit c =
     (case leftSession c of
        None \<Rightarrow> Inl TypeError
      | Some l \<Rightarrow> Inr [Unsplit (id_session l)])"

text \<open>\<^verbatim>\<open>!this.groupId\<close> holds exactly for the empty string.\<close>

definition handleRestoreClick :: "split_group_card \<Rightarrow> js_error + group_card_event list" where
  "handleRestoreClick c =
     (if mode c \<noteq> Persisted \<or> groupId c = [] then Inr []
      else Inr [RestoreSplitGroup (groupId c)])"

definition getGroupStatusColor :: "split_group_card \<Rightarrow> js_error + string" where
  "getGroupStatusColor c =
     (case leftSession c of
        None \<Rightarrow> Inl TypeError
      | Some l \<Rightarrow>
         (case rightSession c of
            None \<Rightarrow> Inl TypeError
          | Some r \<Rightarrow>
             (let leftRunning = (status l = ''running'');
                  rightRunning = (status r = ''running'')
              in if leftRunning \<and> rightRunning then Inr ''bg-status-success''
                 else if leftRunning \<or> rightRunning then Inr ''bg-status-warning''
                 else Inr ''bg-status-error'')))"

text \<open>
  The elements of the rendered template that carry a click listener. The persisted card
  is one element with one listener; its header, previews and footer carry none, so a
  click anywhere inside it bubbles to the card.
\<close>

datatype card_control = LeftNameButton | RightNameButton | UnsplitButton | PersistedCard

definition render :: "split_group_card \<Rightarrow> card_control list" where
  "render c =
     (if leftSession c = None \<or> rightSession c = None then []
      else if mode c = Persisted then [PersistedCard]
      else [LeftNameButton, RightNameButton, UnsplitButton])"

fun listener_of :: "card_control \<Rightarrow> split_group_card \<Rightarrow> js_error + group_card_event list" where
  "listener_of LeftNameButton = handleClickLeft"
| "listener_of RightNameButton = handleClickRight"
| "listener_of UnsplitButton = handleUnsplit"
| "listener_of PersistedCard = handleRestoreClick"

text \<open>A click on a control that is not part of the rendered template reaches no listener.\<close>

definition click :: "split_group_card \<Rightarrow> card_control \<Rightarrow> js_error + group_card_event list" where
  "click c ctl = (if ctl \<in> set (render c) then listener_of ctl c else Inr [])"

section \<open>The compact session card (\<^verbatim>\<open>CompactSessionCard\<close>)\<close>

record compact_session_card =
  session :: session
  isDragOver :: bool

datatype session_card_event =
    SplitWithSession string string
  | SessionDelete string
  | SessionCleanup string
  | SessionKillError string string

text \<open>
  A \<^verbatim>\<open>DataTransfer\<close> holds at most one string per format. \<^verbatim>\<open>getData\<close> answers the
  empty string for a format that has no entry.
\<close>

type_synonym data_transfer = "string \<rightharpoonup> string"

definition vt_session_id :: string where
  "vt_session_id = ''application/vt-session-id''"

definition getData :: "data_transfer \<Rightarrow> string \<Rightarrow> string" where
  "getData dt format = (case dt format of None \<Rightarrow> [] | Some d \<Rightarrow> d)"

record drag_event =
  dataTransfer :: "data_transfer option"
  defaultPrevented :: bool
  dropEffect :: string

text \<open>\<^verbatim>\<open>e.dataTransfer?.types.includes(...)\<close>: the formats that have an entry.\<close>

definition handleDragOver ::
  "drag_event \<Rightarrow> compact_session_card \<Rightarrow> drag_event \<times> compact_session_card" where
  "handleDragOver e c =
     (case dataTransfer e of
        None \<Rightarrow> (e, c)
      | Some dt \<Rightarrow>
          if vt_session_id \<notin> dom dt then (e, c)
          else (e\<lparr>defaultPrevented := True, dropEffect := ''move''\<rparr>, c\<lparr>isDragOver := True\<rparr>))"

text \<open>
  \<^verbatim>\<open>handleDrop\<close> returns the event, the card and the notifications it dispatched.
  \<^verbatim>\<open>draggedSessionId\<close> is \<^verbatim>\<open>undefined\<close> (here \<open>None\<close>) without a \<^verbatim>\<open>dataTransfer\<close>;
  it is falsy when undefined or empty.
\<close>

definition handleDrop ::
  "drag_event \<Rightarrow> compact_session_card \<Rightarrow>
     drag_event \<times> compact_session_card \<times> session_card_event list" where
  "handleDrop e c =
     (let e' = e\<lparr>defaultPrevented := True\<rparr>;
          c' = c\<lparr>isDragOver := False\<rparr>;
          draggedSessionId = map_option (\<lambda>dt. getData dt vt_session_id) (dataTransfer e)
      in case draggedSessionId of
           None \<Rightarrow> (e', c', [])
         | Some d \<Rightarrow>
             if d = [] then (e', c', [])
             else if d = id_session (session c') then (e', c', [])
             else (e', c', [SplitWithSession d (id_session (session c'))]))"

text \<open>
  The two callbacks \<^verbatim>\<open>handleDelete\<close> hands to the delete service. They are closures
  over the card: each reads \<^verbatim>\<open>this.session\<close> when it is called, so the argument is the
  card as it is at that moment.
\<close>

definition onSuccess :: "compact_session_card \<Rightarrow> session_card_event list" where
  "onSuccess c =
     (let eventType = (if status (session c) = ''exited'' then SessionCleanup else SessionDelete)
      in [eventType (id_session (session c))])"

definition onError :: "compact_session_card \<Rightarrow> string \<Rightarrow> session_card_event list" where
  "onError c error = [SessionKillError (id_session (session c)) error]"

text \<open>
  \<^verbatim>\<open>handleDelete\<close> awaits the service. What happens while the call is pending is a
  sequence of steps: the service calls one of the callbacks, or the owner of the card
  assigns its \<^verbatim>\<open>session\<close> property. \<open>whilePending\<close> runs the steps on the card and
  collects the events the callbacks dispatch.
\<close>

datatype pending_step =
    SessionAssigned session
  | CallOnSuccess
  | CallOnError string

fun whilePending :: "compact_session_card \<Rightarrow> pending_step list \<Rightarrow> session_card_event list" where
  "whilePending c [] = []"
| "whilePending c (SessionAssigned s # steps) = whilePending (c\<lparr>session := s\<rparr>) steps"
| "whilePending c (CallOnSuccess # steps) = onSuccess c @ whilePending c steps"
| "whilePending c (CallOnError error # steps) = onError c error @ whilePending c steps"

text \<open>
  \<^verbatim>\<open>sessionActionService.deleteSession\<close> is an external service: it is a parameter,
  given by the steps that follow when it is called with the session of the click.
\<close>

type_synonym delete_service = "session \<Rightarrow> pending_step list"

definition handleDelete :: "delete_service \<Rightarrow> compact_session_card \<Rightarrow> session_card_event list" where
  "handleDelete deleteSession c = whilePending c (deleteSession (session c))"

text \<open>
  Modelled from the spec: the delete service of \<^verbatim>\<open>session-action-service.js\<close> is not
  part of the sources. A service that reports success calls \<^verbatim>\<open>onSuccess\<close> once and
  \<^verbatim>\<open>onError\<close> never; one that reports a failure calls \<^verbatim>\<open>onError\<close> once with the error
  text and \<^verbatim>\<open>onSuccess\<close> never. \<open>before\<close> and \<open>after\<close> are the sessions assigned to the
  card before and after that call, in order.
\<close>

definition reports_success :: "session list \<Rightarrow> session list \<Rightarrow> delete_service" where
  "reports_success before after s =
     map SessionAssigned before @ CallOnSuccess # map SessionAssigned after"

definition reports_failure :: "string \<Rightarrow> session list \<Rightarrow> session list \<Rightarrow> delete_service" where
  "reports_failure error before after s =
     map SessionAssigned before @ CallOnError error # map SessionAssigned after"

section \<open>JavaScript numbers\<close>

text \<open>
  A number is an exact real or one of \<^verbatim>\<open>Infinity\<close>, \<^verbatim>\<open>-Infinity\<close> and \<^verbatim>\<open>NaN\<close>, with
  the arithmetic of IEEE 754 on the special values. The rounding of doubles is not
  modelled, and zero carries no sign: the only divisor of the component is the container
  width, which is the field's initial \<^verbatim>\<open>0\<close> or a difference, and neither is \<^verbatim>\<open>-0\<close>.
\<close>

datatype jsnum = Num real | PInf | NInf | NaN

fun js_neg :: "jsnum \<Rightarrow> jsnum" where
  "js_neg (Num a) = Num (- a)"
| "js_neg PInf = NInf"
| "js_neg NInf = PInf"
| "js_neg NaN = NaN"

fun js_add :: "jsnum \<Rightarrow> jsnum \<Rightarrow> jsnum" where
  "js_add (Num a) (Num b) = Num (a + b)"
| "js_add NaN y = NaN"
| "js_add x NaN = NaN"
| "js_add PInf NInf = NaN"
| "js_add NInf PInf = NaN"
| "js_add PInf y = PInf"
| "js_add x PInf = PInf"
| "js_add NInf y = NInf"
| "js_add x NInf = NInf"

definition js_sub :: "jsnum \<Rightarrow> jsnum \<Rightarrow> jsnum" where
  "js_sub x y = js_add x (js_neg y)"

fun js_div :: "jsnum \<Rightarrow> jsnum \<Rightarrow> jsnum" where
  "js_div (Num a) (Num b) =
     (if b \<noteq> 0 then Num (a / b)
      else if 0 < a then PInf else if a < 0 then NInf else NaN)"
| "js_div NaN y = NaN"
| "js_div x NaN = NaN"
| "js_div (Num a) PInf = Num 0"
| "js_div (Num a) NInf = Num 0"
| "js_div PInf (Num b) = (if b < 0 then NInf else PInf)"
| "js_div NInf (Num b) = (if b < 0 then PInf else NInf)"
| "js_div x y = NaN"

text \<open>\<^verbatim>\<open>Math.max\<close> and \<^verbatim>\<open>Math.min\<close> answer \<^verbatim>\<open>NaN\<close> as soon as one argument is \<^verbatim>\<open>NaN\<close>.\<close>

fun js_max :: "jsnum \<Rightarrow> jsnum \<Rightarrow> jsnum" where
  "js_max (Num a) (Num b) = Num (max a b)"
| "js_max NaN y = NaN"
| "js_max x NaN = NaN"
| "js_max PInf y = PInf"
| "js_max x PInf = PInf"
| "js_max NInf y = y"
| "js_max x NInf = x"

fun js_min :: "jsnum \<Rightarrow> jsnum \<Rightarrow> jsnum" where
  "js_min (Num a) (Num b) = Num (min a b)"
| "js_min NaN y = NaN"
| "js_min x NaN = NaN"
| "js_min NInf y = NInf"
| "js_min x NInf = NInf"
| "js_min PInf y = y"
| "js_min x PInf = x"

fun isFinite :: "jsnum \<Rightarrow> bool" where
  "isFinite (Num a) = True"
| "isFinite x = False"

section \<open>The split pane container (\<^verbatim>\<open>SplitPaneContainer\<close>)\<close>

text \<open>
  \<^verbatim>\<open>SPLIT_PANE\<close> of \<^verbatim>\<open>utils/constants.js\<close> is not part of the sources; its three numbers
  are a parameter of every function that reads them.
\<close>

record split_pane_constants =
  MIN_WIDTH :: real
  DIVIDER_WIDTH :: real
  DEFAULT_RATIO :: real

record split_pane =
  sessionId :: string
  pane_session :: "session option"

datatype bound_handler = BoundMouseMove | BoundMouseUp | BoundPaneMouseDown

datatype listener_call =
    AddEventListener string bound_handler
  | RemoveEventListener string bound_handler

datatype pane_event = PaneFocus nat | SplitResize jsnum

text \<open>
  The component's properties and private fields, followed by what it changes outside
  itself: the listeners of \<^verbatim>\<open>document\<close> (with the calls that changed them, in order) and
  of the host element, two styles of \<^verbatim>\<open>document.body\<close>, the events it dispatched, in
  order, and the number of calls of \<^verbatim>\<open>refitAllTerminals\<close>. An entry of \<^verbatim>\<open>panes\<close> may be
  undefined.
\<close>

record split_pane_container =
  panes :: "split_pane option list"
  activePaneIndex :: int
  splitRatio :: jsnum
  isDragging :: bool
  dragStartX :: jsnum
  dragStartRatio :: jsnum
  containerWidth :: jsnum
  documentListeners :: "(string \<times> bound_handler) list"
  documentCalls :: "listener_call list"
  hostListeners :: "(string \<times> bound_handler) list"
  userSelect :: string
  cursor :: string
  dispatched :: "pane_event list"
  refits :: nat

definition initial :: "split_pane_constants \<Rightarrow> split_pane_container" where
  "initial k =
     \<lparr>panes = [], activePaneIndex = 0, splitRatio = Num (DEFAULT_RATIO k),
      isDragging = False, dragStartX = Num 0, dragStartRatio = Num 0, containerWidth = Num 0,
      documentListeners = [], documentCalls = [], hostListeners = [],
      userSelect = [], cursor = [], dispatched = [], refits = 0\<rparr>"

text \<open>
  An event target keeps one entry per event type and listener: adding one that is
  registered changes nothing, removing one that is not registered changes nothing.
\<close>

definition addEventListener ::
  "string \<Rightarrow> bound_handler \<Rightarrow> (string \<times> bound_handler) list \<Rightarrow> (string \<times> bound_handler) list" where
  "addEventListener type h ls = (if (type, h) \<in> set ls then ls else ls @ [(type, h)])"

definition removeEventListener ::
  "string \<Rightarrow> bound_handler \<Rightarrow> (string \<times> bound_handler) list \<Rightarrow> (string \<times> bound_handler) list" where
  "removeEventListener type h ls = removeAll (type, h) ls"

definition connectedCallback :: "split_pane_container \<Rightarrow> split_pane_container" where
  "connectedCallback s =
     s\<lparr>hostListeners := addEventListener ''mousedown'' BoundPaneMouseDown (hostListeners s)\<rparr>"

definition disconnectedCallback :: "split_pane_container \<Rightarrow> split_pane_container" where
  "disconnectedCallback s =
     s\<lparr>documentListeners :=
          removeEventListener ''mouseup'' BoundMouseUp
            (removeEventListener ''mousemove'' BoundMouseMove (documentListeners s)),
       documentCalls := documentCalls s @
          [RemoveEventListener ''mousemove'' BoundMouseMove,
           RemoveEventListener ''mouseup'' BoundMouseUp],
       hostListeners := removeEventListener ''mousedown'' BoundPaneMouseDown (hostListeners s)\<rparr>"

text \<open>
  \<^verbatim>\<open>refitAllTerminals\<close> requests one animation frame in which every pane's terminal is
  resized; the request is counted.
\<close>

definition refitAllTerminals :: "split_pane_container \<Rightarrow> split_pane_container" where
  "refitAllTerminals s = s\<lparr>refits := Suc (refits s)\<rparr>"

definition updated :: "string list \<Rightarrow> split_pane_container \<Rightarrow> split_pane_container" where
  "updated changedProperties s =
     (if ''splitRatio'' \<in> set changedProperties \<and> \<not> isDragging s then refitAllTerminals s
      else s)"

text \<open>
  The listeners below leave out logging and the calls of \<^verbatim>\<open>preventDefault\<close> and
  \<^verbatim>\<open>stopPropagation\<close>, which no property here depends on.
\<close>

text \<open>
  The divider's \<^verbatim>\<open>mousedown\<close> listener. \<open>clientX\<close> is \<^verbatim>\<open>e.clientX\<close>; \<open>rootEl\<close> is the
  \<^verbatim>\<open>clientWidth\<close> of \<^verbatim>\<open>#split-pane-root\<close>, or \<open>None\<close> when the query finds no element.
\<close>

definition handleDividerMouseDown ::
  "split_pane_constants \<Rightarrow> jsnum \<Rightarrow> nat option \<Rightarrow> split_pane_container \<Rightarrow> split_pane_container" where
  "handleDividerMouseDown k clientX rootEl s =
     s\<lparr>isDragging := True,
       dragStartX := clientX,
       dragStartRatio := splitRatio s,
       containerWidth :=
         (case rootEl of
            Some clientWidth \<Rightarrow> js_sub (Num (real clientWidth)) (Num (DIVIDER_WIDTH k))
          | None \<Rightarrow> containerWidth s),
       documentListeners :=
         addEventListener ''mouseup'' BoundMouseUp
           (addEventListener ''mousemove'' BoundMouseMove (documentListeners s)),
       documentCalls := documentCalls s @
         [AddEventListener ''mousemove'' BoundMouseMove,
          AddEventListener ''mouseup'' BoundMouseUp],
       userSelect := ''none'',
       cursor := ''col-resize''\<rparr>"

definition handleMouseMove ::
  "split_pane_constants \<Rightarrow> jsnum \<Rightarrow> split_pane_container \<Rightarrow> split_pane_container" where
  "handleMouseMove k clientX s =
     (if \<not> isDragging s then s
      else
        let deltaX = js_sub clientX (dragStartX s);
            deltaRatio = js_div deltaX (containerWidth s);
            newRatio = js_add (dragStartRatio s) deltaRatio;
            minRatio = js_div (Num (MIN_WIDTH k)) (containerWidth s);
            maxRatio = js_sub (Num 1) minRatio;
            newRatio = js_max minRatio (js_min maxRatio newRatio)
        in s\<lparr>splitRatio := newRatio\<rparr>)"

definition handleMouseUp :: "split_pane_container \<Rightarrow> split_pane_container" where
  "handleMouseUp s =
     (if \<not> isDragging s then s
      else
        refitAllTerminals
          (s\<lparr>isDragging := False,
             documentListeners :=
               removeEventListener ''mouseup'' BoundMouseUp
                 (removeEventListener ''mousemove'' BoundMouseMove (documentListeners s)),
             documentCalls := documentCalls s @
               [RemoveEventListener ''mousemove'' BoundMouseMove,
                RemoveEventListener ''mouseup'' BoundMouseUp],
             userSelect := [],
             cursor := [],
             dispatched := dispatched s @ [SplitResize (splitRatio s)]\<rparr>))"

subsection \<open>Delivery of events\<close>

text \<open>
  What happens to the component from outside: a \<^verbatim>\<open>mousedown\<close> on the divider, a
  \<^verbatim>\<open>mousemove\<close> or \<^verbatim>\<open>mouseup\<close> anywhere in the document, insertion into and removal
  from the document, and the owner assigning \<^verbatim>\<open>splitRatio\<close>. A document event reaches a
  handler only while that handler is registered on \<^verbatim>\<open>document\<close>.
\<close>

datatype dom_event =
    DividerMouseDown jsnum "nat option"
  | DocumentMouseMove jsnum
  | DocumentMouseUp
  | Connected
  | Disconnected
  | SetSplitRatio jsnum

fun deliver :: "split_pane_constants \<Rightarrow> dom_event \<Rightarrow> split_pane_container \<Rightarrow> split_pane_container" where
  "deliver k (DividerMouseDown clientX rootEl) s = handleDividerMouseDown k clientX rootEl s"
| "deliver k (DocumentMouseMove clientX) s =
     (if (''mousemove'', BoundMouseMove) \<in> set (documentListeners s)
      then handleMouseMove k clientX s else s)"
| "deliver k DocumentMouseUp s =
     (if (''mouseup'', BoundMouseUp) \<in> set (documentListeners s) then handleMouseUp s else s)"
| "deliver k Connected s = connectedCallback s"
| "deliver k Disconnected s = disconnectedCallback s"
| "deliver k (SetSplitRatio r) s = s\<lparr>splitRatio := r\<rparr>"

text \<open>
  After a listener has run, the element's update cycle calls \<^verbatim>\<open>updated\<close> with the
  reactive properties whose value changed, if there is one. The listeners change two of
  them, \<^verbatim>\<open>splitRatio\<close> and \<^verbatim>\<open>isDragging\<close>.
\<close>

definition changed :: "split_pane_container \<Rightarrow> split_pane_container \<Rightarrow> string list" where
  "changed s s' =
     (if splitRatio s' \<noteq> splitRatio s then [''splitRatio''] else [])
     @ (if isDragging s' \<noteq> isDragging s then [''isDragging''] else [])"

definition react :: "split_pane_constants \<Rightarrow> dom_event \<Rightarrow> split_pane_container \<Rightarrow> split_pane_container" where
  "react k ev s =
     (let s' = deliver k ev s
      in if changed s s' = [] then s' else updated (changed s s') s')"

definition run :: "split_pane_constants \<Rightarrow> dom_event list \<Rightarrow> split_pane_container \<Rightarrow> split_pane_container" where
  "run k evs s = fold (react k) evs s"

subsection \<open>Pane focus\<close>

text \<open>
  The part of the document the capture listener queries: \<^verbatim>\<open>querySelector\<close> on the host
  and \<^verbatim>\<open>Node.contains\<close>.
\<close>

record 'e dom_tree =
  querySelector :: "string \<Rightarrow> 'e option"
  contains :: "'e \<Rightarrow> 'e \<Rightarrow> bool"

text \<open>The loop over \<^verbatim>\<open>this.panes\<close>, from index \<open>i\<close> on.\<close>

fun paneLoop :: "'e dom_tree \<Rightarrow> 'e \<Rightarrow> int \<Rightarrow> nat \<Rightarrow> split_pane option list \<Rightarrow> pane_event list" where
  "paneLoop d target active i [] = []"
| "paneLoop d target active i (None # rest) = paneLoop d target active (Suc i) rest"
| "paneLoop d target active i (Some pane # rest) =
     (case querySelector d (''#split-pane-'' @ sessionId pane) of
        None \<Rightarrow> paneLoop d target active (Suc i) rest
      | Some paneEl \<Rightarrow>
          if contains d paneEl target
          then (if active \<noteq> int i then [PaneFocus i] else [])
          else paneLoop d target active (Suc i) rest)"

definition handlePaneMouseDown ::
  "'e dom_tree \<Rightarrow> 'e \<Rightarrow> split_pane_container \<Rightarrow> pane_event list" where
  "handlePaneMouseDown d target s =
     (if (case querySelector d ''#split-divider'' of
            None \<Rightarrow> False
          | Some divider \<Rightarrow> contains d divider target)
      then []
      else paneLoop d target (activePaneIndex s) 0 (panes s))"

subsection \<open>Reference definitions\<close>

text \<open>
  The ratio of a drag as the specification words it, over the reals:
  \<open>clamp(startRatio + (currentX - startX) / containerWidthPx, minRatio, maxRatio)\<close> with
  \<open>minRatio = MIN_PANE_WIDTH_PX / containerWidthPx\<close> and \<open>maxRatio = 1 - minRatio\<close>.
  The clamp lets the lower bound win when the bounds cross.
\<close>

definition spec_clamp :: "real \<Rightarrow> real \<Rightarrow> real \<Rightarrow> real" where
  "spec_clamp x lo hi = max lo (min hi x)"

definition spec_ratio :: "split_pane_constants \<Rightarrow> real \<Rightarrow> real \<Rightarrow> real \<Rightarrow> real \<Rightarrow> real" where
  "spec_ratio k startX startRatio containerWidthPx currentX =
     (let minRatio = MIN_WIDTH k / containerWidthPx;
          maxRatio = 1 - minRatio
      in spec_clamp (startRatio + (currentX - startX) / containerWidthPx) minRatio maxRatio)"

text \<open>Whether the two global listeners are registered on \<^verbatim>\<open>document\<close>.\<close>

definition mousemove_registered :: "split_pane_container \<Rightarrow> bool" where
  "mousemove_registered s = ((''mousemove'', BoundMouseMove) \<in> set (documentListeners s))"

definition mouseup_registered :: "split_pane_container \<Rightarrow> bool" where
  "mouseup_registered s = ((''mouseup'', BoundMouseUp) \<in> set (documentListeners s))"

text \<open>The events that reach the component only through a listener on \<^verbatim>\<open>document\<close>.\<close>

fun is_document_event :: "dom_event \<Rightarrow> bool" where
  "is_document_event (DocumentMouseMove x) = True"
| "is_document_event DocumentMouseUp = True"
| "is_document_event ev = False"

text \<open>The global listeners are registered only while the component is dragging.\<close>

definition listeners_only_while_dragging :: "split_pane_container \<Rightarrow> bool" where
  "listeners_only_while_dragging s =
     (mousemove_registered s \<or> mouseup_registered s \<longrightarrow> isDragging s)"

text \<open>
  Whether the target of a pointer-down lies within the divider, and whether it lies within
  the element of the pane at index \<open>i\<close>.
\<close>

definition in_divider :: "'e dom_tree \<Rightarrow> 'e \<Rightarrow> bool" where
  "in_divider d target =
     (case querySelector d ''#split-divider'' of
        None \<Rightarrow> False
      | Some divider \<Rightarrow> contains d divider target)"

definition pane_hit :: "'e dom_tree \<Rightarrow> 'e \<Rightarrow> split_pane option list \<Rightarrow> nat \<Rightarrow> bool" where
  "pane_hit d target ps i =
     (i < length ps \<and>
      (case ps ! i of
         None \<Rightarrow> False
       | Some pane \<Rightarrow>
           (case querySelector d (''#split-pane-'' @ sessionId pane) of
              None \<Rightarrow> False
            | Some paneEl \<Rightarrow> contains d paneEl target)))"

section \<open>Properties of the split group card\<close>

text \<open>
  C8: the status colour of the persisted card is the success colour when both sessions
  are running, the warning colour when exactly one is, and the error colour when none is.
\<close>

theorem getGroupStatusColor_cases:
  "getGroupStatusColor \<lparr>leftSession = Some l, rightSession = Some r, mode = m, groupId = g\<rparr> =
     Inr (if status l = ''running'' \<and> status r = ''running'' then ''bg-status-success''
          else if (status l = ''running'') \<noteq> (status r = ''running'') then ''bg-status-warning''
          else ''bg-status-error'')"
  by (simp add: getGroupStatusColor_def Let_def)

text \<open>
  C7: with both sessions present, a click on the persisted card whose \<^verbatim>\<open>groupId\<close> is
  not empty raises exactly one \<^verbatim>\<open>restore-split-group\<close> carrying that \<^verbatim>\<open>groupId\<close>;
  in active mode a session name raises \<^verbatim>\<open>split-session-focus\<close> with that session's id,
  the unsplit button raises \<^verbatim>\<open>unsplit\<close> with the left session's id, and no control
  raises \<^verbatim>\<open>restore-split-group\<close>.
\<close>

theorem click_by_mode:
  assumes "leftSession c = Some l" and "rightSession c = Some r"
  shows "(mode c = Persisted \<and> groupId c \<noteq> [] \<longrightarrow>
            click c PersistedCard = Inr [RestoreSplitGroup (groupId c)])
       \<and> (mode c = Active \<longrightarrow>
            click c LeftNameButton = Inr [SplitSessionFocus (id_session l)]
          \<and> click c RightNameButton = Inr [SplitSessionFocus (id_session r)]
          \<and> click c UnsplitButton = Inr [Unsplit (id_session l)]
          \<and> (\<forall>ctl evs g. click c ctl = Inr evs \<longrightarrow> RestoreSplitGroup g \<notin> set evs))"
proof (intro conjI impI allI)
  assume "mode c = Persisted \<and> groupId c \<noteq> []"
  with assms show "click c PersistedCard = Inr [RestoreSplitGroup (groupId c)]"
    by (simp add: click_def render_def handleRestoreClick_def)
next
  assume "mode c = Active"
  with assms show "click c LeftNameButton = Inr [SplitSessionFocus (id_session l)]"
    by (simp add: click_def render_def handleClickLeft_def)
next
  assume "mode c = Active"
  with assms show "click c RightNameButton = Inr [SplitSessionFocus (id_session r)]"
    by (simp add: click_def render_def handleClickRight_def)
next
  assume "mode c = Active"
  with assms show "click c UnsplitButton = Inr [Unsplit (id_session l)]"
    by (simp add: click_def render_def handleUnsplit_def)
next
  fix ctl evs g
  assume active: "mode c = Active" and evs: "click c ctl = Inr evs"
  from active assms evs show "RestoreSplitGroup g \<notin> set evs"
    by (cases ctl)
       (auto simp: click_def render_def handleClickLeft_def handleClickRight_def
          handleUnsplit_def)
qed

theorem click_by_mode_witness:
  "click \<lparr>leftSession = Some \<lparr>id_session = ''a'', status = ''running''\<rparr>,
          rightSession = Some \<lparr>id_session = ''b'', status = ''exited''\<rparr>,
          mode = Persisted, groupId = ''g1''\<rparr> PersistedCard = Inr [RestoreSplitGroup ''g1'']
   \<and> click \<lparr>leftSession = Some \<lparr>id_session = ''a'', status = ''running''\<rparr>,
            rightSession = Some \<lparr>id_session = ''b'', status = ''exited''\<rparr>,
            mode = Active, groupId = ''g1''\<rparr> RightNameButton = Inr [SplitSessionFocus ''b'']
   \<and> click \<lparr>leftSession = Some \<lparr>id_session = ''a'', status = ''running''\<rparr>,
            rightSession = Some \<lparr>id_session = ''b'', status = ''exited''\<rparr>,
            mode = Active, groupId = ''g1''\<rparr> UnsplitButton = Inr [Unsplit ''a'']"
  using click_by_mode
      [of "\<lparr>leftSession = Some \<lparr>id_session = ''a'', status = ''running''\<rparr>,
            rightSession = Some \<lparr>id_session = ''b'', status = ''exited''\<rparr>,
            mode = Persisted, groupId = ''g1''\<rparr>"
          "\<lparr>id_session = ''a'', status = ''running''\<rparr>"
          "\<lparr>id_session = ''b'', status = ''exited''\<rparr>"]
    click_by_mode
      [of "\<lparr>leftSession = Some \<lparr>id_session = ''a'', status = ''running''\<rparr>,
            rightSession = Some \<lparr>id_session = ''b'', status = ''exited''\<rparr>,
            mode = Active, groupId = ''g1''\<rparr>"
          "\<lparr>id_session = ''a'', status = ''running''\<rparr>"
          "\<lparr>id_session = ''b'', status = ''exited''\<rparr>"]
  by simp

text \<open>
  The statement of C7 without the condition on \<^verbatim>\<open>groupId\<close> fails: a persisted card
  whose \<^verbatim>\<open>groupId\<close> is the default empty string is rendered, and a click on it raises
  nothing.
\<close>

theorem persisted_click_empty_groupId:
  "render \<lparr>leftSession = Some \<lparr>id_session = ''a'', status = ''running''\<rparr>,
           rightSession = Some \<lparr>id_session = ''b'', status = ''running''\<rparr>,
           mode = Persisted, groupId = []\<rparr> = [PersistedCard]
   \<and> click \<lparr>leftSession = Some \<lparr>id_session = ''a'', status = ''running''\<rparr>,
            rightSession = Some \<lparr>id_session = ''b'', status = ''running''\<rparr>,
            mode = Persisted, groupId = []\<rparr> PersistedCard = Inr []
   \<and> click \<lparr>leftSession = Some \<lparr>id_session = ''a'', status = ''running''\<rparr>,
            rightSession = Some \<lparr>id_session = ''b'', status = ''running''\<rparr>,
            mode = Persisted, groupId = []\<rparr> PersistedCard \<noteq> Inr [RestoreSplitGroup []]"
  by (simp add: click_def render_def handleRestoreClick_def)

text \<open>
  C10: in persisted mode with an empty \<^verbatim>\<open>groupId\<close> no click raises anything, and every
  \<^verbatim>\<open>restore-split-group\<close> that a click raises carries the card's \<^verbatim>\<open>groupId\<close>, which is
  then not empty.
\<close>

theorem restore_needs_groupId:
  "(mode c = Persisted \<and> groupId c = [] \<longrightarrow>
      handleRestoreClick c = Inr [] \<and> (\<forall>ctl. click c ctl = Inr []))
   \<and> (\<forall>ctl evs g. click c ctl = Inr evs \<and> RestoreSplitGroup g \<in> set evs \<longrightarrow>
         g \<noteq> [] \<and> g = groupId c \<and> mode c = Persisted)"
proof (intro conjI impI allI)
  assume "mode c = Persisted \<and> groupId c = []"
  then show "handleRestoreClick c = Inr []"
    by (simp add: handleRestoreClick_def)
next
  fix ctl
  assume "mode c = Persisted \<and> groupId c = []"
  then show "click c ctl = Inr []"
    by (simp add: click_def render_def handleRestoreClick_def)
next
  fix ctl evs g
  assume h: "click c ctl = Inr evs \<and> RestoreSplitGroup g \<in> set evs"
  then have "ctl \<in> set (render c)"
    by (auto simp: click_def split: if_splits)
  with h have r: "ctl = PersistedCard \<and> mode c = Persisted \<and> groupId c \<noteq> []
      \<and> evs = [RestoreSplitGroup (groupId c)]"
    by (cases ctl)
       (auto simp: click_def render_def handleClickLeft_def handleClickRight_def
          handleUnsplit_def handleRestoreClick_def split: if_splits option.splits)
  with h show "g \<noteq> []" and "g = groupId c" and "mode c = Persisted"
    by auto
qed

theorem restore_needs_groupId_witness:
  "click \<lparr>leftSession = Some \<lparr>id_session = ''a'', status = ''exited''\<rparr>,
          rightSession = Some \<lparr>id_session = ''b'', status = ''exited''\<rparr>,
          mode = Persisted, groupId = []\<rparr> PersistedCard = Inr []
   \<and> handleRestoreClick \<lparr>leftSession = Some \<lparr>id_session = ''a'', status = ''exited''\<rparr>,
          rightSession = Some \<lparr>id_session = ''b'', status = ''exited''\<rparr>,
          mode = Persisted, groupId = []\<rparr> = Inr []"
  using restore_needs_groupId
      [of "\<lparr>leftSession = Some \<lparr>id_session = ''a'', status = ''exited''\<rparr>,
            rightSession = Some \<lparr>id_session = ''b'', status = ''exited''\<rparr>,
            mode = Persisted, groupId = []\<rparr>"]
  by simp

section \<open>Properties of the compact session card\<close>

text \<open>
  C6: a drop whose payload under the split key is a non-empty session id other than the
  card's own raises exactly one \<^verbatim>\<open>split-with-session\<close> with the dragged and the target
  id; a drop without a \<^verbatim>\<open>dataTransfer\<close>, without an entry under the split key, with an
  empty entry, or with the card's own id raises nothing. \<^verbatim>\<open>handleDrop\<close> has no failing
  branch.
\<close>

theorem handleDrop_events:
  "(dataTransfer e = Some dt \<and> dt vt_session_id = Some d \<and> d \<noteq> []
      \<and> d \<noteq> id_session (session c) \<longrightarrow>
      snd (snd (handleDrop e c)) = [SplitWithSession d (id_session (session c))])
   \<and> (dataTransfer e = None
      \<or> (dataTransfer e = Some dt
         \<and> (dt vt_session_id = None \<or> dt vt_session_id = Some []
            \<or> dt vt_session_id = Some (id_session (session c)))) \<longrightarrow>
      snd (snd (handleDrop e c)) = [])"
proof (intro conjI impI)
  assume "dataTransfer e = Some dt \<and> dt vt_session_id = Some d \<and> d \<noteq> []
      \<and> d \<noteq> id_session (session c)"
  then show "snd (snd (handleDrop e c)) = [SplitWithSession d (id_session (session c))]"
    by (simp add: handleDrop_def getData_def Let_def)
next
  assume "dataTransfer e = None
      \<or> (dataTransfer e = Some dt
         \<and> (dt vt_session_id = None \<or> dt vt_session_id = Some []
            \<or> dt vt_session_id = Some (id_session (session c))))"
  then show "snd (snd (handleDrop e c)) = []"
    by (elim disjE conjE) (simp_all add: handleDrop_def getData_def Let_def)
qed

theorem handleDrop_events_witness:
  "snd (snd (handleDrop
      \<lparr>dataTransfer = Some [vt_session_id \<mapsto> ''A''], defaultPrevented = False, dropEffect = ''none''\<rparr>
      \<lparr>session = \<lparr>id_session = ''B'', status = ''running''\<rparr>, isDragOver = True\<rparr>))
     = [SplitWithSession ''A'' ''B'']
   \<and> snd (snd (handleDrop
      \<lparr>dataTransfer = Some [vt_session_id \<mapsto> ''B''], defaultPrevented = False, dropEffect = ''none''\<rparr>
      \<lparr>session = \<lparr>id_session = ''B'', status = ''running''\<rparr>, isDragOver = True\<rparr>))
     = []
   \<and> snd (snd (handleDrop
      \<lparr>dataTransfer = Some [''text/plain'' \<mapsto> ''A''], defaultPrevented = False, dropEffect = ''none''\<rparr>
      \<lparr>session = \<lparr>id_session = ''B'', status = ''running''\<rparr>, isDragOver = True\<rparr>))
     = []
   \<and> snd (snd (handleDrop
      \<lparr>dataTransfer = Some [vt_session_id \<mapsto> []], defaultPrevented = False, dropEffect = ''none''\<rparr>
      \<lparr>session = \<lparr>id_session = ''C'', status = ''running''\<rparr>, isDragOver = True\<rparr>))
     = []"
  using handleDrop_events
      [of "\<lparr>dataTransfer = Some [vt_session_id \<mapsto> []], defaultPrevented = False, dropEffect = ''none''\<rparr>"
          "[vt_session_id \<mapsto> []]" "[]"
          "\<lparr>session = \<lparr>id_session = ''C'', status = ''running''\<rparr>, isDragOver = True\<rparr>"]
    handleDrop_events
      [of "\<lparr>dataTransfer = Some [vt_session_id \<mapsto> ''A''], defaultPrevented = False, dropEffect = ''none''\<rparr>"
          "[vt_session_id \<mapsto> ''A'']" "''A''"
          "\<lparr>session = \<lparr>id_session = ''B'', status = ''running''\<rparr>, isDragOver = True\<rparr>"]
    handleDrop_events
      [of "\<lparr>dataTransfer = Some [vt_session_id \<mapsto> ''B''], defaultPrevented = False, dropEffect = ''none''\<rparr>"
          "[vt_session_id \<mapsto> ''B'']" "''B''"
          "\<lparr>session = \<lparr>id_session = ''B'', status = ''running''\<rparr>, isDragOver = True\<rparr>"]
    handleDrop_events
      [of "\<lparr>dataTransfer = Some [''text/plain'' \<mapsto> ''A''], defaultPrevented = False, dropEffect = ''none''\<rparr>"
          "[''text/plain'' \<mapsto> ''A'']" "''A''"
          "\<lparr>session = \<lparr>id_session = ''B'', status = ''running''\<rparr>, isDragOver = True\<rparr>"]
  by (simp add: vt_session_id_def)

text \<open>
  The statement of C6 for every present payload fails: an entry under the split key that
  holds the empty string is present (\<^verbatim>\<open>handleDragOver\<close> accepts it) and differs from the
  card's id, and the drop raises nothing.
\<close>

theorem handleDrop_empty_payload:
  "[vt_session_id \<mapsto> []] vt_session_id = Some []
   \<and> defaultPrevented (fst (handleDragOver
      \<lparr>dataTransfer = Some [vt_session_id \<mapsto> []], defaultPrevented = False, dropEffect = ''none''\<rparr>
      \<lparr>session = \<lparr>id_session = ''B'', status = ''running''\<rparr>, isDragOver = False\<rparr>))
   \<and> [] \<noteq> id_session (session
        \<lparr>session = \<lparr>id_session = ''B'', status = ''running''\<rparr>, isDragOver = True\<rparr>)
   \<and> snd (snd (handleDrop
      \<lparr>dataTransfer = Some [vt_session_id \<mapsto> []], defaultPrevented = False, dropEffect = ''none''\<rparr>
      \<lparr>session = \<lparr>id_session = ''B'', status = ''running''\<rparr>, isDragOver = True\<rparr>))
     = []"
  by (simp add: handleDrop_def getData_def handleDragOver_def)

lemma whilePending_assigned:
  "whilePending c (map SessionAssigned ss @ steps) =
     whilePending (c\<lparr>session := last (session c # ss)\<rparr>) steps"
  by (induction ss arbitrary: c) simp_all

lemma whilePending_only_assigned: "whilePending c (map SessionAssigned ss) = []"
  by (induction ss arbitrary: c) simp_all

text \<open>
  The session may be replaced while the delete is pending; the event follows the session
  the card holds when the service calls back.
\<close>

lemma handleDelete_session_replaced:
  "handleDelete (reports_success [\<lparr>id_session = ''s1'', status = ''exited''\<rparr>] [])
     \<lparr>session = \<lparr>id_session = ''s1'', status = ''running''\<rparr>, isDragOver = False\<rparr>
     = [SessionCleanup ''s1'']"
  by (simp add: handleDelete_def reports_success_def onSuccess_def)

text \<open>
  C9: when the delete service reports a failure, exactly one \<^verbatim>\<open>session-kill-error\<close> with
  the session id and the error is raised and nothing else; when it reports success, the
  one event raised is \<^verbatim>\<open>session-cleanup\<close> for an exited session and \<^verbatim>\<open>session-delete\<close>
  otherwise. The session is the one the card holds when the service calls back: the last
  one assigned before the call, or the session of the click when none was assigned.
\<close>

theorem handleDelete_outcomes:
  "handleDelete (reports_failure error before after) c =
       [SessionKillError (id_session (last (session c # before))) error]
   \<and> handleDelete (reports_success before after) c =
       [if status (last (session c # before)) = ''exited''
        then SessionCleanup (id_session (last (session c # before)))
        else SessionDelete (id_session (last (session c # before)))]"
proof
  show "handleDelete (reports_failure error before after) c =
       [SessionKillError (id_session (last (session c # before))) error]"
    unfolding handleDelete_def reports_failure_def whilePending_assigned
    by (simp add: whilePending_only_assigned onError_def)
next
  show "handleDelete (reports_success before after) c =
       [if status (last (session c # before)) = ''exited''
        then SessionCleanup (id_session (last (session c # before)))
        else SessionDelete (id_session (last (session c # before)))]"
    unfolding handleDelete_def reports_success_def whilePending_assigned
    by (simp add: whilePending_only_assigned onSuccess_def)
qed

section \<open>Properties of the split pane container\<close>

subsection \<open>Steps of a drag\<close>

lemma spec_clamp_ordered:
  "lo \<le> hi \<Longrightarrow> spec_clamp x lo hi = min hi (max lo x) \<and> lo \<le> spec_clamp x lo hi
     \<and> spec_clamp x lo hi \<le> hi"
  by (auto simp: spec_clamp_def)

lemma run_append: "run k (xs @ ys) s = run k ys (run k xs s)"
  by (simp add: run_def)

lemma run_Cons: "run k (x # xs) s = run k xs (react k x s)"
  by (simp add: run_def)

lemma react_mousedown:
  "react k (DividerMouseDown x rootEl) s = handleDividerMouseDown k x rootEl s"
  by (simp add: react_def Let_def updated_def handleDividerMouseDown_def)

lemma mousedown_fields:
  "isDragging (handleDividerMouseDown k x rootEl s)"
  "dragStartX (handleDividerMouseDown k x rootEl s) = x"
  "dragStartRatio (handleDividerMouseDown k x rootEl s) = splitRatio s"
  "splitRatio (handleDividerMouseDown k x rootEl s) = splitRatio s"
  "containerWidth (handleDividerMouseDown k x (Some cw) s) = Num (real cw - DIVIDER_WIDTH k)"
  "mousemove_registered (handleDividerMouseDown k x rootEl s)"
  "mouseup_registered (handleDividerMouseDown k x rootEl s)"
  "dispatched (handleDividerMouseDown k x rootEl s) = dispatched s"
  "refits (handleDividerMouseDown k x rootEl s) = refits s"
  by (simp_all add: handleDividerMouseDown_def js_sub_def mousemove_registered_def
        mouseup_registered_def addEventListener_def)

lemma react_mousemove:
  assumes "isDragging s" and "mousemove_registered s"
  shows "react k (DocumentMouseMove x) s = handleMouseMove k x s"
  using assms
  by (simp add: react_def Let_def updated_def handleMouseMove_def mousemove_registered_def)

lemma mousemove_fields:
  "isDragging (handleMouseMove k x s) = isDragging s"
  "dragStartX (handleMouseMove k x s) = dragStartX s"
  "dragStartRatio (handleMouseMove k x s) = dragStartRatio s"
  "containerWidth (handleMouseMove k x s) = containerWidth s"
  "documentListeners (handleMouseMove k x s) = documentListeners s"
  "documentCalls (handleMouseMove k x s) = documentCalls s"
  "dispatched (handleMouseMove k x s) = dispatched s"
  "refits (handleMouseMove k x s) = refits s"
  by (simp_all add: handleMouseMove_def Let_def)

text \<open>Pointer moves of a drag change nothing but \<^verbatim>\<open>splitRatio\<close>.\<close>

lemma run_moves_fields:
  assumes "isDragging s" and "mousemove_registered s"
  shows "isDragging (run k (map DocumentMouseMove xs) s)
       \<and> dragStartX (run k (map DocumentMouseMove xs) s) = dragStartX s
       \<and> dragStartRatio (run k (map DocumentMouseMove xs) s) = dragStartRatio s
       \<and> containerWidth (run k (map DocumentMouseMove xs) s) = containerWidth s
       \<and> documentListeners (run k (map DocumentMouseMove xs) s) = documentListeners s
       \<and> documentCalls (run k (map DocumentMouseMove xs) s) = documentCalls s
       \<and> dispatched (run k (map DocumentMouseMove xs) s) = dispatched s
       \<and> refits (run k (map DocumentMouseMove xs) s) = refits s"
  using assms
proof (induction xs arbitrary: s)
  case Nil
  then show ?case by (simp add: run_def)
next
  case (Cons x xs)
  let ?t = "handleMouseMove k x s"
  have step: "react k (DocumentMouseMove x) s = ?t"
    using Cons.prems by (rule react_mousemove)
  have "isDragging ?t" and "mousemove_registered ?t"
    using Cons.prems by (simp_all add: mousemove_fields mousemove_registered_def)
  from Cons.IH [OF this] show ?case
    by (simp add: run_Cons step mousemove_fields)
qed

lemma handleMouseMove_real:
  assumes "isDragging s" and "dragStartX s = Num x0" and "dragStartRatio s = Num r0"
    and "containerWidth s = Num w" and "w \<noteq> 0"
  shows "splitRatio (handleMouseMove k (Num x) s) = Num (spec_ratio k x0 r0 w x)"
  using assms
  by (simp add: handleMouseMove_def Let_def js_sub_def spec_ratio_def spec_clamp_def)

text \<open>
  C1: a drag starts on the divider with a start position, the current ratio and a
  container width above zero. After any pointer moves, the move to \<open>currentX\<close> sets the
  ratio to the clamped value of the specification, whatever the moves before it were.
  With a start ratio of 0.5, a container width of 1000 and a move of 150 pixels the
  ratio is 0.65, for a minimum pane width of at most 350.
\<close>

theorem drag_ratio:
  assumes "splitRatio s0 = Num startRatio"
    and "0 < real clientWidth - DIVIDER_WIDTH k"
  shows "splitRatio (run k (DividerMouseDown (Num startX) (Some clientWidth)
                            # map DocumentMouseMove (moves @ [Num currentX])) s0)
           = Num (spec_ratio k startX startRatio (real clientWidth - DIVIDER_WIDTH k) currentX)
       \<and> (MIN_WIDTH k \<le> 350 \<and> real clientWidth - DIVIDER_WIDTH k = 1000
            \<and> startRatio = 0.5 \<and> currentX - startX = 150 \<longrightarrow>
          splitRatio (run k (DividerMouseDown (Num startX) (Some clientWidth)
                            # map DocumentMouseMove (moves @ [Num currentX])) s0) = Num 0.65)"
proof -
  let ?w = "real clientWidth - DIVIDER_WIDTH k"
  let ?s1 = "handleDividerMouseDown k (Num startX) (Some clientWidth) s0"
  let ?s2 = "run k (map DocumentMouseMove moves) ?s1"
  have inv: "isDragging ?s2 \<and> dragStartX ?s2 = Num startX \<and> dragStartRatio ?s2 = Num startRatio
      \<and> containerWidth ?s2 = Num ?w \<and> mousemove_registered ?s2"
    using run_moves_fields [of ?s1 k moves] assms(1)
      mousedown_fields(6) [of k "Num startX" "Some clientWidth" s0]
    by (simp add: mousedown_fields(1-5) mousemove_registered_def)
  have final: "run k (DividerMouseDown (Num startX) (Some clientWidth)
                        # map DocumentMouseMove (moves @ [Num currentX])) s0
      = handleMouseMove k (Num currentX) ?s2"
    using inv by (simp add: run_Cons run_append react_mousedown react_mousemove run_def)
  have ratio: "splitRatio (handleMouseMove k (Num currentX) ?s2)
      = Num (spec_ratio k startX startRatio ?w currentX)"
    using inv assms(2) by (intro handleMouseMove_real) simp_all
  have ex: "spec_ratio k startX startRatio ?w currentX = 0.65"
    if "MIN_WIDTH k \<le> 350 \<and> ?w = 1000 \<and> startRatio = 0.5 \<and> currentX - startX = 150"
    using that by (simp add: spec_ratio_def spec_clamp_def Let_def max_def min_def)
  show ?thesis
    using final ratio ex by simp
qed

theorem drag_ratio_witness:
  "splitRatio (initial \<lparr>MIN_WIDTH = 200, DIVIDER_WIDTH = 4, DEFAULT_RATIO = 0.5\<rparr>) = Num 0.5
   \<and> 0 < real 1004 - DIVIDER_WIDTH \<lparr>MIN_WIDTH = 200, DIVIDER_WIDTH = 4, DEFAULT_RATIO = 0.5\<rparr>
   \<and> splitRatio (run \<lparr>MIN_WIDTH = 200, DIVIDER_WIDTH = 4, DEFAULT_RATIO = 0.5\<rparr>
        (DividerMouseDown (Num 300) (Some 1004)
          # map DocumentMouseMove ([Num 310, Num 900] @ [Num 450]))
        (initial \<lparr>MIN_WIDTH = 200, DIVIDER_WIDTH = 4, DEFAULT_RATIO = 0.5\<rparr>)) = Num 0.65"
  using drag_ratio
      [of "initial \<lparr>MIN_WIDTH = 200, DIVIDER_WIDTH = 4, DEFAULT_RATIO = 0.5\<rparr>" "0.5" 1004
          "\<lparr>MIN_WIDTH = 200, DIVIDER_WIDTH = 4, DEFAULT_RATIO = 0.5\<rparr>" 300 "[Num 310, Num 900]" 450]
  by (simp add: initial_def spec_ratio_def spec_clamp_def)

subsection \<open>A container without width\<close>

lemma js_div_zero_cases:
  "js_div x (Num 0) = PInf \<or> js_div x (Num 0) = NInf \<or> js_div x (Num 0) = NaN"
  by (cases x) simp_all

lemma js_div_zero_not_finite: "\<not> isFinite (js_div x (Num 0))"
  using js_div_zero_cases [of x] by auto

lemma js_add_not_finite: "\<not> isFinite y \<Longrightarrow> \<not> isFinite (js_add x y)"
  by (cases x; cases y) simp_all

lemma js_neg_not_finite: "\<not> isFinite y \<Longrightarrow> \<not> isFinite (js_neg y)"
  by (cases y) simp_all

lemma js_min_not_finite: "\<not> isFinite x \<Longrightarrow> \<not> isFinite y \<Longrightarrow> \<not> isFinite (js_min x y)"
  by (cases x; cases y) simp_all

lemma js_max_not_finite: "\<not> isFinite x \<Longrightarrow> \<not> isFinite y \<Longrightarrow> \<not> isFinite (js_max x y)"
  by (cases x; cases y) simp_all

lemma handleMouseMove_zero_width:
  assumes "isDragging s" and "containerWidth s = Num 0"
  shows "\<not> isFinite (splitRatio (handleMouseMove k x s))"
  using assms
  by (simp add: handleMouseMove_def Let_def js_sub_def js_max_not_finite js_min_not_finite
        js_add_not_finite js_neg_not_finite js_div_zero_not_finite)

text \<open>
  Below zero the ratio math runs as well: the stored ratio is the clamped value for the
  negative width.
\<close>

lemma negative_width_drag_ratio:
  assumes "splitRatio s0 = Num startRatio" and "real clientWidth < DIVIDER_WIDTH k"
  shows "splitRatio (run k [DividerMouseDown (Num startX) (Some clientWidth),
                            DocumentMouseMove (Num currentX)] s0)
           = Num (spec_ratio k startX startRatio (real clientWidth - DIVIDER_WIDTH k) currentX)"
proof -
  let ?s1 = "handleDividerMouseDown k (Num startX) (Some clientWidth) s0"
  have "run k [DividerMouseDown (Num startX) (Some clientWidth),
               DocumentMouseMove (Num currentX)] s0 = handleMouseMove k (Num currentX) ?s1"
    by (simp add: run_def react_mousedown react_mousemove mousedown_fields)
  moreover have "splitRatio (handleMouseMove k (Num currentX) ?s1)
      = Num (spec_ratio k startX startRatio (real clientWidth - DIVIDER_WIDTH k) currentX)"
    using assms by (intro handleMouseMove_real) (simp_all add: mousedown_fields)
  ultimately show ?thesis by simp
qed

text \<open>
  C2 asks that a drag over a container of width zero or less leaves the ratio unchanged
  and finite. The handler has no such guard: when the root element is exactly as wide as
  the divider, the container width is zero, the drag starts, and every pointer move
  stores a ratio that is not finite.
\<close>

theorem zero_width_drag:
  assumes "real clientWidth = DIVIDER_WIDTH k"
  shows "isDragging (run k (DividerMouseDown startX (Some clientWidth)
                            # map DocumentMouseMove (moves @ [currentX])) s0)
       \<and> \<not> isFinite (splitRatio (run k (DividerMouseDown startX (Some clientWidth)
                            # map DocumentMouseMove (moves @ [currentX])) s0))"
proof -
  let ?s1 = "handleDividerMouseDown k startX (Some clientWidth) s0"
  let ?s2 = "run k (map DocumentMouseMove moves) ?s1"
  have inv: "isDragging ?s2 \<and> containerWidth ?s2 = Num 0 \<and> mousemove_registered ?s2"
    using run_moves_fields [of ?s1 k moves] assms
      mousedown_fields(6) [of k startX "Some clientWidth" s0]
    by (simp add: mousedown_fields(1-5) mousemove_registered_def)
  have final: "run k (DividerMouseDown startX (Some clientWidth)
                        # map DocumentMouseMove (moves @ [currentX])) s0
      = handleMouseMove k currentX ?s2"
    using inv by (simp add: run_Cons run_append react_mousedown react_mousemove run_def)
  show ?thesis
    unfolding final using inv by (simp add: handleMouseMove_zero_width mousemove_fields)
qed

theorem zero_width_drag_witness:
  "real 4 = DIVIDER_WIDTH \<lparr>MIN_WIDTH = 200, DIVIDER_WIDTH = 4, DEFAULT_RATIO = 0.5\<rparr>
   \<and> isFinite (splitRatio (initial \<lparr>MIN_WIDTH = 200, DIVIDER_WIDTH = 4, DEFAULT_RATIO = 0.5\<rparr>))
   \<and> \<not> isFinite (splitRatio (run \<lparr>MIN_WIDTH = 200, DIVIDER_WIDTH = 4, DEFAULT_RATIO = 0.5\<rparr>
        (DividerMouseDown (Num 300) (Some 4) # map DocumentMouseMove ([] @ [Num 350]))
        (initial \<lparr>MIN_WIDTH = 200, DIVIDER_WIDTH = 4, DEFAULT_RATIO = 0.5\<rparr>)))
   \<and> splitRatio (run \<lparr>MIN_WIDTH = 200, DIVIDER_WIDTH = 4, DEFAULT_RATIO = 0.5\<rparr>
        (DividerMouseDown (Num 300) (Some 4) # map DocumentMouseMove ([] @ [Num 350]))
        (initial \<lparr>MIN_WIDTH = 200, DIVIDER_WIDTH = 4, DEFAULT_RATIO = 0.5\<rparr>)) = PInf"
  using zero_width_drag
      [of 4 "\<lparr>MIN_WIDTH = 200, DIVIDER_WIDTH = 4, DEFAULT_RATIO = 0.5\<rparr>" "Num 300" "[]" "Num 350"
          "initial \<lparr>MIN_WIDTH = 200, DIVIDER_WIDTH = 4, DEFAULT_RATIO = 0.5\<rparr>"]
  by (simp add: initial_def run_def react_def changed_def updated_def
        handleDividerMouseDown_def handleMouseMove_def addEventListener_def js_sub_def Let_def)

subsection \<open>Listeners and notifications of a drag\<close>

lemma updated_dragging: "isDragging s \<Longrightarrow> updated cp s = s"
  by (simp add: updated_def)

lemma react_mouseup:
  assumes "isDragging s" and "mouseup_registered s"
  shows "react k DocumentMouseUp s = handleMouseUp s"
  using assms
  by (simp add: react_def Let_def updated_def handleMouseUp_def mouseup_registered_def
        changed_def refitAllTerminals_def)

lemma react_disconnected: "react k Disconnected s = disconnectedCallback s"
  by (simp add: react_def Let_def changed_def disconnectedCallback_def)

lemma disconnected_fields:
  "\<not> mousemove_registered (disconnectedCallback s)"
  "\<not> mouseup_registered (disconnectedCallback s)"
  "dispatched (disconnectedCallback s) = dispatched s"
  "splitRatio (disconnectedCallback s) = splitRatio s"
  "isDragging (disconnectedCallback s) = isDragging s"
  "documentCalls (disconnectedCallback s) = documentCalls s @
     [RemoveEventListener ''mousemove'' BoundMouseMove, RemoveEventListener ''mouseup'' BoundMouseUp]"
  by (simp_all add: disconnectedCallback_def mousemove_registered_def mouseup_registered_def
        removeEventListener_def)

lemma mouseup_fields:
  assumes "isDragging s"
  shows "\<not> isDragging (handleMouseUp s)"
    "\<not> mousemove_registered (handleMouseUp s)"
    "\<not> mouseup_registered (handleMouseUp s)"
    "dispatched (handleMouseUp s) = dispatched s @ [SplitResize (splitRatio s)]"
    "refits (handleMouseUp s) = Suc (refits s)"
    "documentCalls (handleMouseUp s) = documentCalls s @
       [RemoveEventListener ''mousemove'' BoundMouseMove, RemoveEventListener ''mouseup'' BoundMouseUp]"
  using assms
  by (simp_all add: handleMouseUp_def mousemove_registered_def mouseup_registered_def
        removeEventListener_def refitAllTerminals_def)

lemma react_unregistered:
  assumes "\<not> mousemove_registered s" and "\<not> mouseup_registered s" and "is_document_event ev"
  shows "react k ev s = s"
  using assms
  by (cases ev) (simp_all add: react_def changed_def mousemove_registered_def mouseup_registered_def)

lemma run_unregistered:
  assumes "\<not> mousemove_registered s" and "\<not> mouseup_registered s" and "list_all is_document_event evs"
  shows "run k evs s = s"
  using assms
  by (induction evs) (simp_all add: run_def react_unregistered)

text \<open>The state of a drag in progress, after the mousedown and any pointer moves.\<close>

lemma drag_in_progress:
  "isDragging (run k (DividerMouseDown x rootEl # map DocumentMouseMove moves) s)
   \<and> mousemove_registered (run k (DividerMouseDown x rootEl # map DocumentMouseMove moves) s)
   \<and> mouseup_registered (run k (DividerMouseDown x rootEl # map DocumentMouseMove moves) s)
   \<and> dispatched (run k (DividerMouseDown x rootEl # map DocumentMouseMove moves) s) = dispatched s
   \<and> refits (run k (DividerMouseDown x rootEl # map DocumentMouseMove moves) s) = refits s"
proof -
  let ?s1 = "handleDividerMouseDown k x rootEl s"
  let ?s2 = "run k (map DocumentMouseMove moves) ?s1"
  have eq: "run k (DividerMouseDown x rootEl # map DocumentMouseMove moves) s = ?s2"
    by (simp add: run_Cons react_mousedown)
  have "isDragging ?s1" and "mousemove_registered ?s1"
    by (simp_all add: mousedown_fields)
  from run_moves_fields [OF this, of k moves]
  have d: "isDragging ?s2" and l: "documentListeners ?s2 = documentListeners ?s1"
    and e: "dispatched ?s2 = dispatched ?s1" and r: "refits ?s2 = refits ?s1"
    by simp_all
  have "mousemove_registered ?s2"
    using mousedown_fields(6) [of k x rootEl s] by (simp add: mousemove_registered_def l)
  moreover have "mouseup_registered ?s2"
    using mousedown_fields(7) [of k x rootEl s] by (simp add: mouseup_registered_def l)
  ultimately show ?thesis
    unfolding eq using d e r by (simp add: mousedown_fields(8,9))
qed

lemma updated_listeners:
  "documentListeners (updated cp s) = documentListeners s"
  "isDragging (updated cp s) = isDragging s"
  by (simp_all add: updated_def refitAllTerminals_def)

lemma react_listeners:
  "documentListeners (react k ev s) = documentListeners (deliver k ev s)"
  "isDragging (react k ev s) = isDragging (deliver k ev s)"
  by (simp_all add: react_def Let_def updated_listeners)

lemma deliver_invariant:
  assumes "listeners_only_while_dragging s"
  shows "listeners_only_while_dragging (deliver k ev s)"
  using assms
  by (cases ev)
     (auto simp: listeners_only_while_dragging_def mousemove_registered_def mouseup_registered_def
        handleDividerMouseDown_def handleMouseMove_def handleMouseUp_def Let_def
        connectedCallback_def disconnectedCallback_def removeEventListener_def
        refitAllTerminals_def)

lemma react_invariant:
  assumes "listeners_only_while_dragging s"
  shows "listeners_only_while_dragging (react k ev s)"
  using deliver_invariant [OF assms, of k ev]
  by (simp add: listeners_only_while_dragging_def mousemove_registered_def
        mouseup_registered_def react_listeners)

lemma run_invariant:
  assumes "listeners_only_while_dragging s"
  shows "listeners_only_while_dragging (run k evs s)"
  using assms
  by (induction evs arbitrary: s) (simp_all add: run_def react_invariant)

lemma initial_invariant: "listeners_only_while_dragging (initial k)"
  by (simp add: listeners_only_while_dragging_def initial_def mousemove_registered_def
        mouseup_registered_def)


text \<open>
  C4: when the component is removed from the document during a drag, both global
  listeners are removed, each by one call, and no \<^verbatim>\<open>split-resize\<close> is dispatched; later
  pointer moves and releases anywhere in the document change nothing. A release during a
  drag removes both listeners likewise, each by one call. In every state the component
  reaches from its construction, a global listener is registered only while it is
  dragging.
\<close>

theorem disconnect_while_dragging:
  "let s1 = run k (DividerMouseDown startX rootEl # map DocumentMouseMove moves) s0;
       s2 = react k Disconnected s1;
       s3 = react k DocumentMouseUp s1;
       removed = [RemoveEventListener ''mousemove'' BoundMouseMove,
                  RemoveEventListener ''mouseup'' BoundMouseUp]
   in isDragging s1 \<and> mousemove_registered s1 \<and> mouseup_registered s1
    \<and> \<not> mousemove_registered s2 \<and> \<not> mouseup_registered s2
    \<and> documentCalls s2 = documentCalls s1 @ removed
    \<and> dispatched s2 = dispatched s0
    \<and> (list_all is_document_event later \<longrightarrow> run k later s2 = s2)
    \<and> \<not> isDragging s3 \<and> \<not> mousemove_registered s3 \<and> \<not> mouseup_registered s3
    \<and> documentCalls s3 = documentCalls s1 @ removed
    \<and> listeners_only_while_dragging (run k evs (initial k))"
proof -
  define s1 where "s1 = run k (DividerMouseDown startX rootEl # map DocumentMouseMove moves) s0"
  have s1: "isDragging s1" "mousemove_registered s1" "mouseup_registered s1"
    "dispatched s1 = dispatched s0"
    using drag_in_progress [of k startX rootEl moves s0] by (simp_all add: s1_def)
  have s2: "react k Disconnected s1 = disconnectedCallback s1"
    by (rule react_disconnected)
  have s3: "react k DocumentMouseUp s1 = handleMouseUp s1"
    using s1(1,3) by (rule react_mouseup)
  have later: "run k later (disconnectedCallback s1) = disconnectedCallback s1"
    if "list_all is_document_event later"
    using that by (intro run_unregistered) (simp_all add: disconnected_fields)
  have inv: "listeners_only_while_dragging (run k evs (initial k))"
    by (intro run_invariant initial_invariant)
  show ?thesis
    unfolding Let_def s1_def [symmetric] s2 s3
    using s1 later inv by (simp add: disconnected_fields mouseup_fields)
qed

theorem disconnect_while_dragging_witness:
  "list_all is_document_event [DocumentMouseMove (Num 500), DocumentMouseUp]
   \<and> run \<lparr>MIN_WIDTH = 200, DIVIDER_WIDTH = 4, DEFAULT_RATIO = 0.5\<rparr>
        [DocumentMouseMove (Num 500), DocumentMouseUp]
        (react \<lparr>MIN_WIDTH = 200, DIVIDER_WIDTH = 4, DEFAULT_RATIO = 0.5\<rparr> Disconnected
          (run \<lparr>MIN_WIDTH = 200, DIVIDER_WIDTH = 4, DEFAULT_RATIO = 0.5\<rparr>
            (DividerMouseDown (Num 300) (Some 1004) # map DocumentMouseMove [Num 350])
            (initial \<lparr>MIN_WIDTH = 200, DIVIDER_WIDTH = 4, DEFAULT_RATIO = 0.5\<rparr>)))
     = react \<lparr>MIN_WIDTH = 200, DIVIDER_WIDTH = 4, DEFAULT_RATIO = 0.5\<rparr> Disconnected
          (run \<lparr>MIN_WIDTH = 200, DIVIDER_WIDTH = 4, DEFAULT_RATIO = 0.5\<rparr>
            (DividerMouseDown (Num 300) (Some 1004) # map DocumentMouseMove [Num 350])
            (initial \<lparr>MIN_WIDTH = 200, DIVIDER_WIDTH = 4, DEFAULT_RATIO = 0.5\<rparr>))
   \<and> dispatched
        (react \<lparr>MIN_WIDTH = 200, DIVIDER_WIDTH = 4, DEFAULT_RATIO = 0.5\<rparr> Disconnected
          (run \<lparr>MIN_WIDTH = 200, DIVIDER_WIDTH = 4, DEFAULT_RATIO = 0.5\<rparr>
            (DividerMouseDown (Num 300) (Some 1004) # map DocumentMouseMove [Num 350])
            (initial \<lparr>MIN_WIDTH = 200, DIVIDER_WIDTH = 4, DEFAULT_RATIO = 0.5\<rparr>))) = []
   \<and> mousemove_registered
        (run \<lparr>MIN_WIDTH = 200, DIVIDER_WIDTH = 4, DEFAULT_RATIO = 0.5\<rparr>
          [DividerMouseDown (Num 300) (Some 1004)]
          (initial \<lparr>MIN_WIDTH = 200, DIVIDER_WIDTH = 4, DEFAULT_RATIO = 0.5\<rparr>))
   \<and> isDragging
        (run \<lparr>MIN_WIDTH = 200, DIVIDER_WIDTH = 4, DEFAULT_RATIO = 0.5\<rparr>
          [DividerMouseDown (Num 300) (Some 1004)]
          (initial \<lparr>MIN_WIDTH = 200, DIVIDER_WIDTH = 4, DEFAULT_RATIO = 0.5\<rparr>))"
  using disconnect_while_dragging
      [of "\<lparr>MIN_WIDTH = 200, DIVIDER_WIDTH = 4, DEFAULT_RATIO = 0.5\<rparr>" "Num 300" "Some 1004"
          "[Num 350]" "initial \<lparr>MIN_WIDTH = 200, DIVIDER_WIDTH = 4, DEFAULT_RATIO = 0.5\<rparr>"
          "[DocumentMouseMove (Num 500), DocumentMouseUp]"
          "[DividerMouseDown (Num 300) (Some 1004)]"]
    mousedown_fields(6)
      [of "\<lparr>MIN_WIDTH = 200, DIVIDER_WIDTH = 4, DEFAULT_RATIO = 0.5\<rparr>" "Num 300" "Some 1004"
          "initial \<lparr>MIN_WIDTH = 200, DIVIDER_WIDTH = 4, DEFAULT_RATIO = 0.5\<rparr>"]
  by (simp add: Let_def listeners_only_while_dragging_def run_Cons react_mousedown
        initial_def run_def)

text \<open>
  C5: from the start of a drag through all of its pointer moves no refit of the pane
  content is requested and nothing is dispatched, and an update cycle in that state
  requests none either; the release dispatches \<^verbatim>\<open>split-resize\<close> with the final ratio
  and requests exactly one refit, and the drag is over.
\<close>

theorem refit_deferred_until_mouseup:
  "let s1 = run k (DividerMouseDown startX rootEl # map DocumentMouseMove moves) s0;
       s2 = react k DocumentMouseUp s1
   in isDragging s1 \<and> refits s1 = refits s0 \<and> dispatched s1 = dispatched s0
    \<and> updated changedProperties s1 = s1
    \<and> \<not> isDragging s2
    \<and> dispatched s2 = dispatched s0 @ [SplitResize (splitRatio s1)]
    \<and> refits s2 = Suc (refits s0)"
proof -
  define s1 where "s1 = run k (DividerMouseDown startX rootEl # map DocumentMouseMove moves) s0"
  have s1: "isDragging s1" "mouseup_registered s1" "dispatched s1 = dispatched s0"
    "refits s1 = refits s0"
    using drag_in_progress [of k startX rootEl moves s0] by (simp_all add: s1_def)
  have s2: "react k DocumentMouseUp s1 = handleMouseUp s1"
    using s1(1,2) by (rule react_mouseup)
  show ?thesis
    unfolding Let_def s1_def [symmetric] s2
    using s1 by (simp add: mouseup_fields updated_dragging)
qed

subsection \<open>Pane focus\<close>

lemma pane_hit_Nil [simp]: "\<not> pane_hit d t [] i"
  by (simp add: pane_hit_def)

lemma pane_hit_Suc [simp]: "pane_hit d t (p # ps) (Suc i) = pane_hit d t ps i"
  by (simp add: pane_hit_def)

lemma pane_hit_0:
  "pane_hit d t (p # ps) 0 =
     (case p of None \<Rightarrow> False
      | Some pane \<Rightarrow>
          (case querySelector d (''#split-pane-'' @ sessionId pane) of
             None \<Rightarrow> False
           | Some paneEl \<Rightarrow> contains d paneEl t))"
  by (simp add: pane_hit_def)

lemma paneLoop_Cons:
  "paneLoop d t a n (p # ps) =
     (if pane_hit d t (p # ps) 0 then (if a \<noteq> int n then [PaneFocus n] else [])
      else paneLoop d t a (Suc n) ps)"
  by (cases p) (simp_all add: pane_hit_0 split: option.splits)

lemma paneLoop_miss:
  "(\<And>i. \<not> pane_hit d t ps i) \<Longrightarrow> paneLoop d t a n ps = []"
proof (induction ps arbitrary: n)
  case Nil
  show ?case by simp
next
  case (Cons p ps)
  have rest: "\<not> pane_hit d t ps i" for i
    using Cons.prems [of "Suc i"] by simp
  have here: "\<not> pane_hit d t (p # ps) 0"
    by (rule Cons.prems)
  have "paneLoop d t a n (p # ps) = paneLoop d t a (Suc n) ps"
    using here by (subst paneLoop_Cons) simp
  also have "\<dots> = []"
    using rest by (rule Cons.IH)
  finally show ?case .
qed

lemma paneLoop_first_hit:
  "pane_hit d t ps i \<Longrightarrow> (\<And>j. j < i \<Longrightarrow> \<not> pane_hit d t ps j) \<Longrightarrow>
     paneLoop d t a n ps = (if a \<noteq> int (n + i) then [PaneFocus (n + i)] else [])"
proof (induction ps arbitrary: n i)
  case Nil
  then show ?case by simp
next
  case (Cons p ps)
  show ?case
  proof (cases i)
    case 0
    with Cons.prems(1) show ?thesis
      by (subst paneLoop_Cons) simp
  next
    case (Suc i')
    have hit: "pane_hit d t ps i'"
      using Cons.prems(1) Suc by simp
    have before: "\<not> pane_hit d t ps j" if "j < i'" for j
      using Cons.prems(2) [of "Suc j"] that Suc by simp
    have here: "\<not> pane_hit d t (p # ps) 0"
      using Cons.prems(2) [of 0] Suc by simp
    have "paneLoop d t a n (p # ps) = paneLoop d t a (Suc n) ps"
      using here by (subst paneLoop_Cons) simp
    also have "\<dots> = (if a \<noteq> int (Suc n + i') then [PaneFocus (Suc n + i')] else [])"
      using hit before by (rule Cons.IH)
    finally show ?thesis
      using Suc by simp
  qed
qed

text \<open>
  C3: a pointer-down whose target lies within the divider raises nothing. Otherwise the
  first pane, in order, whose element contains the target decides: exactly one
  \<^verbatim>\<open>pane-focus\<close> with that pane's index is raised when the index differs from
  \<^verbatim>\<open>activePaneIndex\<close>, and nothing when it is equal; when no pane contains the target,
  nothing is raised.
\<close>

theorem pane_focus_first_hit:
  "(in_divider d target \<longrightarrow> handlePaneMouseDown d target s = [])
   \<and> (\<not> in_divider d target \<and> pane_hit d target (panes s) i
        \<and> (\<forall>j<i. \<not> pane_hit d target (panes s) j) \<longrightarrow>
      handlePaneMouseDown d target s =
        (if activePaneIndex s \<noteq> int i then [PaneFocus i] else []))
   \<and> (\<not> in_divider d target \<and> (\<forall>j. \<not> pane_hit d target (panes s) j) \<longrightarrow>
      handlePaneMouseDown d target s = [])"
proof (intro conjI impI)
  assume "in_divider d target"
  then show "handlePaneMouseDown d target s = []"
    by (simp add: handlePaneMouseDown_def in_divider_def)
next
  assume h: "\<not> in_divider d target \<and> pane_hit d target (panes s) i
        \<and> (\<forall>j<i. \<not> pane_hit d target (panes s) j)"
  then have "paneLoop d target (activePaneIndex s) 0 (panes s) =
      (if activePaneIndex s \<noteq> int (0 + i) then [PaneFocus (0 + i)] else [])"
    by (intro paneLoop_first_hit) simp_all
  with h show "handlePaneMouseDown d target s =
        (if activePaneIndex s \<noteq> int i then [PaneFocus i] else [])"
    by (simp add: handlePaneMouseDown_def in_divider_def)
next
  assume h: "\<not> in_divider d target \<and> (\<forall>j. \<not> pane_hit d target (panes s) j)"
  then have "paneLoop d target (activePaneIndex s) 0 (panes s) = []"
    by (intro paneLoop_miss) simp
  with h show "handlePaneMouseDown d target s = []"
    by (simp add: handlePaneMouseDown_def in_divider_def)
qed


theorem pane_focus_first_hit_witness:
  "handlePaneMouseDown
      \<lparr>querySelector = [''#split-divider'' \<mapsto> 10, ''#split-pane-A'' \<mapsto> 1, ''#split-pane-B'' \<mapsto> 2],
       contains = (\<lambda>el t. t = el \<or> t = 10 * el + (1::nat))\<rparr>
      21
      ((initial \<lparr>MIN_WIDTH = 200, DIVIDER_WIDTH = 4, DEFAULT_RATIO = 0.5\<rparr>)
         \<lparr>panes := [Some \<lparr>sessionId = ''A'', pane_session = None\<rparr>,
                    Some \<lparr>sessionId = ''B'', pane_session = None\<rparr>]\<rparr>)
     = [PaneFocus 1]
   \<and> handlePaneMouseDown
      \<lparr>querySelector = [''#split-divider'' \<mapsto> 10, ''#split-pane-A'' \<mapsto> 1, ''#split-pane-B'' \<mapsto> 2],
       contains = (\<lambda>el t. t = el \<or> t = 10 * el + (1::nat))\<rparr>
      21
      ((initial \<lparr>MIN_WIDTH = 200, DIVIDER_WIDTH = 4, DEFAULT_RATIO = 0.5\<rparr>)
         \<lparr>panes := [Some \<lparr>sessionId = ''A'', pane_session = None\<rparr>,
                    Some \<lparr>sessionId = ''B'', pane_session = None\<rparr>],
          activePaneIndex := 1\<rparr>)
     = []
   \<and> handlePaneMouseDown
      \<lparr>querySelector = [''#split-divider'' \<mapsto> 10, ''#split-pane-A'' \<mapsto> 1, ''#split-pane-B'' \<mapsto> 2],
       contains = (\<lambda>el t. t = el \<or> t = 10 * el + (1::nat))\<rparr>
      10
      ((initial \<lparr>MIN_WIDTH = 200, DIVIDER_WIDTH = 4, DEFAULT_RATIO = 0.5\<rparr>)
         \<lparr>panes := [Some \<lparr>sessionId = ''A'', pane_session = None\<rparr>,
                    Some \<lparr>sessionId = ''B'', pane_session = None\<rparr>]\<rparr>)
     = []
   \<and> handlePaneMouseDown
      \<lparr>querySelector = [''#split-divider'' \<mapsto> 10, ''#split-pane-A'' \<mapsto> 1, ''#split-pane-B'' \<mapsto> 2],
       contains = (\<lambda>el t. t = el \<or> t = 10 * el + (1::nat))\<rparr>
      99
      ((initial \<lparr>MIN_WIDTH = 200, DIVIDER_WIDTH = 4, DEFAULT_RATIO = 0.5\<rparr>)
         \<lparr>panes := [Some \<lparr>sessionId = ''A'', pane_session = None\<rparr>,
                    Some \<lparr>sessionId = ''B'', pane_session = None\<rparr>]\<rparr>)
     = []"
  using pane_focus_first_hit
      [of "\<lparr>querySelector = [''#split-divider'' \<mapsto> 10, ''#split-pane-A'' \<mapsto> 1, ''#split-pane-B'' \<mapsto> 2],
            contains = (\<lambda>el t. t = el \<or> t = 10 * el + (1::nat))\<rparr>"
          21
          "(initial \<lparr>MIN_WIDTH = 200, DIVIDER_WIDTH = 4, DEFAULT_RATIO = 0.5\<rparr>)
             \<lparr>panes := [Some \<lparr>sessionId = ''A'', pane_session = None\<rparr>,
                        Some \<lparr>sessionId = ''B'', pane_session = None\<rparr>]\<rparr>"
          1]
    pane_focus_first_hit
      [of "\<lparr>querySelector = [''#split-divider'' \<mapsto> 10, ''#split-pane-A'' \<mapsto> 1, ''#split-pane-B'' \<mapsto> 2],
            contains = (\<lambda>el t. t = el \<or> t = 10 * el + (1::nat))\<rparr>"
          21
          "(initial \<lparr>MIN_WIDTH = 200, DIVIDER_WIDTH = 4, DEFAULT_RATIO = 0.5\<rparr>)
             \<lparr>panes := [Some \<lparr>sessionId = ''A'', pane_session = None\<rparr>,
                        Some \<lparr>sessionId = ''B'', pane_session = None\<rparr>],
              activePaneIndex := 1\<rparr>"
          1]
    pane_focus_first_hit
      [of "\<lparr>querySelector = [''#split-divider'' \<mapsto> 10, ''#split-pane-A'' \<mapsto> 1, ''#split-pane-B'' \<mapsto> 2],
            contains = (\<lambda>el t. t = el \<or> t = 10 * el + (1::nat))\<rparr>"
          10
          "(initial \<lparr>MIN_WIDTH = 200, DIVIDER_WIDTH = 4, DEFAULT_RATIO = 0.5\<rparr>)
             \<lparr>panes := [Some \<lparr>sessionId = ''A'', pane_session = None\<rparr>,
                        Some \<lparr>sessionId = ''B'', pane_session = None\<rparr>]\<rparr>"
          0]
    pane_focus_first_hit
      [of "\<lparr>querySelector = [''#split-divider'' \<mapsto> 10, ''#split-pane-A'' \<mapsto> 1, ''#split-pane-B'' \<mapsto> 2],
            contains = (\<lambda>el t. t = el \<or> t = 10 * el + (1::nat))\<rparr>"
          99
          "(initial \<lparr>MIN_WIDTH = 200, DIVIDER_WIDTH = 4, DEFAULT_RATIO = 0.5\<rparr>)
             \<lparr>panes := [Some \<lparr>sessionId = ''A'', pane_session = None\<rparr>,
                        Some \<lparr>sessionId = ''B'', pane_session = None\<rparr>]\<rparr>"
          0]
  by (simp add: initial_def in_divider_def pane_hit_def handlePaneMouseDown_def)

end
